theory Spec2Isabelle
  imports Complex_Main "HOL-Library.Sublist"
begin

section \<open>The chat service of main.py\<close>

text \<open>
  A shallow embedding of \<^verbatim>\<open>chat_endpoint\<close> (main.py, lines 63 to 139): the
  request and response models, the assembly of the prompt, the call of the generation
  provider and the \<^verbatim>\<open>except\<close> clause that maps exceptions to results.

  A Python \<^verbatim>\<open>str\<close> is a \<open>string\<close> whose characters are read as the code
  points 0 to 255. Logging has no influence on the result and is left out.
\<close>

subsection \<open>Data model\<close>

record ChatMessage =
  role :: string
  content :: string
  timestamp :: "string option"

record ChatRequest =
  message :: string
  history :: "ChatMessage list"
  search_context :: "string option"
  user_id :: "string option"
  system_prompt :: "string option"

record ChatResponse =
  response :: string
  status :: string
  error :: "string option"

text \<open>
  What the process reads from its environment: \<^verbatim>\<open>GEMINI_API_KEY\<close> (line 32) and
  \<^verbatim>\<open>GEMINI_MODEL\<close> (line 108). \<open>None\<close> is an unset variable.
\<close>

record environment =
  gemini_api_key :: "string option"
  gemini_model :: "string option"

record GenerationConfig =
  max_output_tokens :: nat
  temperature :: rat

text \<open>
  The exceptions the handler sees: the \<^verbatim>\<open>HTTPException\<close> of FastAPI, with its status
  code and detail, and any other exception, of which the handler only reads \<^verbatim>\<open>str(e)\<close>.
\<close>

datatype exception = HTTPException nat string | Exception string

text \<open>
  The generation provider (lines 109 to 121: \<^verbatim>\<open>GenerativeModel\<close>,
  \<^verbatim>\<open>generate_content\<close>, \<^verbatim>\<open>response.text\<close>) is a parameter: given the model name,
  the prompt and the generation parameters it returns the generated text (\<open>Inr\<close>) or raises
  an exception with the given text (\<open>Inl\<close>). Every invocation is recorded.
\<close>

type_synonym provider_call = "string \<times> string \<times> GenerationConfig"

type_synonym provider = "string \<Rightarrow> string \<Rightarrow> GenerationConfig \<Rightarrow> string + string"

subsection \<open>Strings\<close>

text \<open>\<^verbatim>\<open>str.lower()\<close> on the code points 0 to 255.\<close>

definition lower_char :: "char \<Rightarrow> char" where
  "lower_char c =
     (let n = (of_char c :: nat) in
      if (65 \<le> n \<and> n \<le> 90) \<or> (192 \<le> n \<and> n \<le> 222 \<and> n \<noteq> 215)
      then char_of (n + 32) else c)"

definition lower :: "string \<Rightarrow> string" where
  "lower s = map lower_char s"

text \<open>\<^verbatim>\<open>sep.join(parts)\<close>\<close>

fun join :: "string \<Rightarrow> string list \<Rightarrow> string" where
  "join sep [] = []"
| "join sep [x] = x"
| "join sep (x # y # ys) = x @ sep @ join sep (y # ys)"

text \<open>Truth value of an \<^verbatim>\<open>Optional[str]\<close>: neither \<^verbatim>\<open>None\<close> nor empty.\<close>

fun truthy :: "string option \<Rightarrow> bool" where
  "truthy None = False"
| "truthy (Some s) = (s \<noteq> [])"

subsection \<open>Prompt assembly (lines 73 to 102)\<close>

definition default_system_prompt :: string where
  "default_system_prompt =
     ''\<newline>            You are a helpful AI assistant that answers questions based on provided context. '' @
     ''\<newline>            If search context is provided, use it to give accurate and detailed answers. '' @
     ''\<newline>            If no context is provided or it'' @ [CHR 0x27] @ ''s not relevant, provide helpful responses based on your knowledge.'' @
     ''\<newline>            Be conversational and friendly.''"

text \<open>\<^verbatim>\<open>request.system_prompt or <default>\<close> (line 73)\<close>

definition effective_system_prompt :: "ChatRequest \<Rightarrow> string" where
  "effective_system_prompt request =
     (if truthy (system_prompt request) then the (system_prompt request)
      else default_system_prompt)"

text \<open>\<^verbatim>\<open>request.history[-10:]\<close> (line 86)\<close>

definition last10 :: "'a list \<Rightarrow> 'a list" where
  "last10 xs = drop (length xs - 10) xs"

text \<open>The body of the loop over the history (lines 87 and 88).\<close>

definition history_part :: "ChatMessage \<Rightarrow> string" where
  "history_part msg =
     (if role msg = ''user'' then ''Human'' else ''Assistant'') @ '': '' @ content msg"

text \<open>Lines 91 to 97.\<close>

definition current_message :: "ChatRequest \<Rightarrow> string" where
  "current_message request =
     (if truthy (search_context request)
      then ''Question: '' @ message request @
           ''\<newline>            # Search Context:'' @
           ''\<newline>            # '' @ the (search_context request) @
           ''\<newline>'' @
           ''\<newline>            # Please answer the question using the provided search context when relevant.''
      else message request)"

definition conversation_parts :: "ChatRequest \<Rightarrow> string list" where
  "conversation_parts request =
     [''System: '' @ effective_system_prompt request]
     @ map history_part (last10 (history request))
     @ [''Human: '' @ current_message request]"

definition full_prompt :: "ChatRequest \<Rightarrow> string" where
  "full_prompt request = join ''\<newline>\<newline>'' (conversation_parts request)"

subsection \<open>The handler\<close>

definition generation_config :: GenerationConfig where
  "generation_config = \<lparr>max_output_tokens = 1000, temperature = 7 / 10\<rparr>"

text \<open>\<^verbatim>\<open>os.getenv("GEMINI_MODEL", "gemini-1.5-pro")\<close> (line 108)\<close>

definition model_name :: "environment \<Rightarrow> string" where
  "model_name env = (case gemini_model env of None \<Rightarrow> ''gemini-1.5-pro'' | Some m \<Rightarrow> m)"

text \<open>
  The body of the \<^verbatim>\<open>try\<close> (lines 66 to 127): the exception it raises or the response
  it returns, and the provider calls made.
\<close>

definition try_body ::
  "environment \<Rightarrow> provider \<Rightarrow> ChatRequest \<Rightarrow> (exception + ChatResponse) \<times> provider_call list"
where
  "try_body env generate request =
     (if \<not> truthy (gemini_api_key env)
      then (Inl (HTTPException 500 ''Gemini API key not configured''), [])
      else
        let prompt = full_prompt request;
            call = (model_name env, prompt, generation_config)
        in case generate (model_name env) prompt generation_config of
             Inl text \<Rightarrow> (Inl (Exception text), [call])
           | Inr ai_response \<Rightarrow>
               (Inr \<lparr>response = ai_response, status = ''success'', error = None\<rparr>, [call]))"

text \<open>
  \<^verbatim>\<open>str(e)\<close>. The text of an \<^verbatim>\<open>HTTPException\<close> is decided by the web framework,
  which is not part of the repository: it is the parameter \<open>http_str\<close>.
\<close>

fun exception_str :: "(nat \<Rightarrow> string \<Rightarrow> string) \<Rightarrow> exception \<Rightarrow> string" where
  "exception_str http_str (HTTPException code detail) = http_str code detail"
| "exception_str http_str (Exception text) = text"

text \<open>The test of line 130.\<close>

definition is_api_error :: "string \<Rightarrow> bool" where
  "is_api_error s = (sublist ''API'' s \<or> sublist ''quota'' (lower s))"

definition apology :: string where
  "apology = ''I'' @ [CHR 0x27] @ ''m sorry, I'' @ [CHR 0x27] @
     ''m having trouble connecting to the AI service right now. Please try again later.''"

text \<open>The \<^verbatim>\<open>except\<close> clause (lines 129 to 139).\<close>

definition except_clause ::
  "(nat \<Rightarrow> string \<Rightarrow> string) \<Rightarrow> exception \<Rightarrow> exception + ChatResponse"
where
  "except_clause http_str e =
     (if is_api_error (exception_str http_str e)
      then Inr \<lparr>response = apology, status = ''error'',
                error = Some (exception_str http_str e)\<rparr>
      else Inl (HTTPException 500 (''Internal server error: '' @ exception_str http_str e)))"

definition chat_endpoint ::
  "(nat \<Rightarrow> string \<Rightarrow> string) \<Rightarrow> environment \<Rightarrow> provider \<Rightarrow> ChatRequest
     \<Rightarrow> (exception + ChatResponse) \<times> provider_call list"
where
  "chat_endpoint http_str env generate request =
     (case try_body env generate request of
        (Inl e, calls) \<Rightarrow> (except_clause http_str e, calls)
      | (Inr r, calls) \<Rightarrow> (Inr r, calls))"

text \<open>
  The status of the HTTP reply: a returned model is sent with 200, a raised
  \<^verbatim>\<open>HTTPException\<close> with its status code, any other exception with 500.
\<close>

fun http_status :: "exception + ChatResponse \<Rightarrow> nat" where
  "http_status (Inr r) = 200"
| "http_status (Inl (HTTPException code detail)) = code"
| "http_status (Inl (Exception text)) = 500"

subsection \<open>Test doubles and sample inputs\<close>

text \<open>A provider that raises an exception with the given text, and one that answers.\<close>

definition raising :: "string \<Rightarrow> provider" where
  "raising text name prompt config = Inl text"

definition answering :: "string \<Rightarrow> provider" where
  "answering text name prompt config = Inr text"

text \<open>
  The text of an \<^verbatim>\<open>HTTPException\<close> in the web framework the service runs on
  (Starlette): \<^verbatim>\<open>f"{self.status_code}: {self.detail}"\<close>.
\<close>

fun decimal :: "nat \<Rightarrow> string" where
  "decimal n =
     (if n < 10 then [char_of (48 + n)]
      else decimal (n div 10) @ [char_of (48 + n mod 10)])"

declare decimal.simps [simp del]

definition starlette_str :: "nat \<Rightarrow> string \<Rightarrow> string" where
  "starlette_str code detail = decimal code @ '': '' @ detail"

definition turn :: "string \<Rightarrow> string \<Rightarrow> ChatMessage" where
  "turn r c = \<lparr>role = r, content = c, timestamp = None\<rparr>"

definition ask :: "string \<Rightarrow> ChatRequest" where
  "ask m = \<lparr>message = m, history = [], search_context = None, user_id = None,
            system_prompt = None\<rparr>"

definition configured :: environment where
  "configured = \<lparr>gemini_api_key = Some ''key'', gemini_model = None\<rparr>"

definition eleven_turns :: "ChatMessage list" where
  "eleven_turns =
     [turn ''user'' ''q0'', turn ''assistant'' ''a0'', turn ''user'' ''q1'',
      turn ''assistant'' ''a1'', turn ''user'' ''q2'', turn ''assistant'' ''a2'',
      turn ''user'' ''q3'', turn ''assistant'' ''a3'', turn ''user'' ''q4'',
      turn ''assistant'' ''a4'', turn ''user'' ''q5'']"

definition dated :: "string \<Rightarrow> ChatMessage \<Rightarrow> ChatMessage" where
  "dated t msg = msg\<lparr>timestamp := Some t\<rparr>"

section \<open>Properties\<close>

subsection \<open>Helper facts\<close>

lemma lower_sublist: "sublist xs ys \<Longrightarrow> sublist (lower xs) (lower ys)"
  unfolding sublist_def lower_def by (metis map_append)

lemma lower_API: "lower ''API'' = ''api''"
  by code_simp

lemma case_sensitive_within_insensitive:
  "sublist ''API'' s \<Longrightarrow> sublist ''api'' (lower s)"
  using lower_sublist [of "''API''" s] by (simp only: lower_API)

lemma decimal_500: "decimal 500 = ''500''"
  by code_simp

lemma starlette_str_500: "starlette_str 500 detail = ''500: '' @ detail"
  by (simp add: starlette_str_def decimal_500)

lemma try_body_unconfigured:
  "try_body \<lparr>gemini_api_key = None, gemini_model = m\<rparr> generate request =
     (Inl (HTTPException 500 ''Gemini API key not configured''), [])"
  by (simp add: try_body_def)

lemma not_configured_is_api_error:
  "is_api_error (starlette_str 500 ''Gemini API key not configured'')"
  unfolding is_api_error_def starlette_str_def decimal_500 by code_simp

lemma try_body_raising:
  "try_body configured (raising text) request =
     (Inl (Exception text), [(''gemini-1.5-pro'', full_prompt request, generation_config)])"
  by (simp add: try_body_def configured_def raising_def model_name_def)

lemma last10_append: "length recent = 10 \<Longrightarrow> last10 (older @ recent) = recent"
  by (simp add: last10_def)

lemma last10_short: "length xs \<le> 10 \<Longrightarrow> last10 xs = xs"
  by (simp add: last10_def)

lemma last10_map: "last10 (map f xs) = map f (last10 xs)"
  by (simp add: last10_def drop_map)

lemma last_conversation_parts:
  "last (conversation_parts request) = ''Human: '' @ current_message request"
  by (simp add: conversation_parts_def)

lemma hd_conversation_parts:
  "hd (conversation_parts request) = ''System: '' @ effective_system_prompt request"
  by (simp add: conversation_parts_def)

lemma default_system_prompt_nonempty: "default_system_prompt \<noteq> []"
  by (simp add: default_system_prompt_def)

lemma effective_system_prompt_nonempty: "effective_system_prompt request \<noteq> []"
  by (cases "system_prompt request")
     (simp_all add: effective_system_prompt_def default_system_prompt_nonempty)

lemma history_parts_role_content:
  "map (\<lambda>msg. (role msg, content msg)) h1 = map (\<lambda>msg. (role msg, content msg)) h2
   \<Longrightarrow> map history_part h1 = map history_part h2"
proof (induction h1 arbitrary: h2)
  case Nil
  then show ?case by simp
next
  case (Cons msg h1)
  then obtain msg' h2' where "h2 = msg' # h2'"
    by (cases h2) auto
  with Cons show ?case
    by (auto simp: history_part_def)
qed

subsection \<open>Missing credential\<close>

text \<open>
  C1. With the credential absent, no provider call is made, but the request does not fail
  with the HTTP 500 of line 70: that exception is raised inside the \<^verbatim>\<open>try\<close>
  and caught by the \<^verbatim>\<open>except\<close> clause of line 129, so whatever the text of the
  exception is, the outcome is never the raised \<^verbatim>\<open>HTTPException(500, "Gemini API key
  not configured")\<close>. With the text the framework gives it, which contains
  \<^verbatim>\<open>API\<close>, the handler returns a \<^verbatim>\<open>ChatResponse\<close> with status
  \<^verbatim>\<open>error\<close>, sent with HTTP 200.
\<close>

theorem missing_credential_is_absorbed:
  "snd (chat_endpoint http_str \<lparr>gemini_api_key = None, gemini_model = m\<rparr> generate request) = []
   \<and> fst (chat_endpoint http_str \<lparr>gemini_api_key = None, gemini_model = m\<rparr> generate request)
       \<noteq> Inl (HTTPException 500 ''Gemini API key not configured'')
   \<and> chat_endpoint starlette_str \<lparr>gemini_api_key = None, gemini_model = m\<rparr> generate request
       = (Inr \<lparr>response = apology, status = ''error'',
               error = Some ''500: Gemini API key not configured''\<rparr>, [])
   \<and> http_status (fst (chat_endpoint starlette_str
         \<lparr>gemini_api_key = None, gemini_model = m\<rparr> generate request)) = 200"
proof -
  let ?env = "\<lparr>gemini_api_key = None, gemini_model = m\<rparr>"
  have body: "try_body ?env generate request =
     (Inl (HTTPException 500 ''Gemini API key not configured''), [])"
    by (rule try_body_unconfigured)
  have calls: "snd (chat_endpoint http_str ?env generate request) = []"
    by (simp add: chat_endpoint_def body)
  have differs: "fst (chat_endpoint http_str ?env generate request)
       \<noteq> Inl (HTTPException 500 ''Gemini API key not configured'')"
    by (simp add: chat_endpoint_def body except_clause_def)
  have "chat_endpoint starlette_str ?env generate request
       = (Inr \<lparr>response = apology, status = ''error'',
               error = Some (starlette_str 500 ''Gemini API key not configured'')\<rparr>, [])"
    by (simp add: chat_endpoint_def body except_clause_def not_configured_is_api_error)
  then have absorbed: "chat_endpoint starlette_str ?env generate request
       = (Inr \<lparr>response = apology, status = ''error'',
               error = Some ''500: Gemini API key not configured''\<rparr>, [])"
    by (simp add: starlette_str_500)
  have sent: "http_status (fst (chat_endpoint starlette_str ?env generate request)) = 200"
    by (simp add: absorbed)
  from calls differs absorbed sent show ?thesis by blast
qed

subsection \<open>Exceptions\<close>

text \<open>
  C2, as stated, fails: a provider exception with the text \<^verbatim>\<open>api down\<close> contains
  \<^verbatim>\<open>api\<close> compared case-insensitively, and the handler raises HTTP 500 instead of
  returning a response with status \<^verbatim>\<open>error\<close>. Line 130 looks for \<^verbatim>\<open>API\<close>
  in the text as it is, and only \<^verbatim>\<open>quota\<close> in the lower-cased text.
\<close>

theorem lowercase_api_counterexample:
  "try_body configured (raising ''api down'') (ask ''hi'') =
     (Inl (Exception ''api down''),
      [(''gemini-1.5-pro'', full_prompt (ask ''hi''), generation_config)])
   \<and> sublist ''api'' (lower (exception_str starlette_str (Exception ''api down'')))
   \<and> chat_endpoint starlette_str configured (raising ''api down'') (ask ''hi'') =
     (Inl (HTTPException 500 ''Internal server error: api down''),
      [(''gemini-1.5-pro'', full_prompt (ask ''hi''), generation_config)])
   \<and> http_status (fst (chat_endpoint starlette_str configured (raising ''api down'') (ask ''hi'')))
       = 500"
proof -
  have contained: "sublist ''api'' (lower (exception_str starlette_str (Exception ''api down'')))"
    by code_simp
  have test: "\<not> is_api_error ''api down''"
    unfolding is_api_error_def by code_simp
  have outcome: "chat_endpoint starlette_str configured (raising ''api down'') (ask ''hi'') =
     (Inl (HTTPException 500 ''Internal server error: api down''),
      [(''gemini-1.5-pro'', full_prompt (ask ''hi''), generation_config)])"
    by (simp add: chat_endpoint_def try_body_raising except_clause_def test)
  have sent: "http_status (fst (chat_endpoint starlette_str configured (raising ''api down'') (ask ''hi''))) = 500"
    by (simp add: outcome)
  from try_body_raising [of "''api down''" "ask ''hi''"] contained outcome sent
  show ?thesis by blast
qed

text \<open>
  C2, amended. For every exception raised in the body of the handler whose text contains
  \<^verbatim>\<open>API\<close> in upper case, or \<^verbatim>\<open>quota\<close> compared case-insensitively, the
  handler returns, with HTTP 200, the response with status \<^verbatim>\<open>error\<close>, the fixed
  apology and the text of the exception as error; that text is not empty. The provider
  calls are those of the body.
\<close>

theorem upstream_failure_absorbed:
  assumes "try_body env generate request = (Inl e, calls)"
    and "sublist ''API'' (exception_str http_str e)
         \<or> sublist ''quota'' (lower (exception_str http_str e))"
  shows "chat_endpoint http_str env generate request =
           (Inr \<lparr>response = apology, status = ''error'',
                 error = Some (exception_str http_str e)\<rparr>, calls)
         \<and> http_status (fst (chat_endpoint http_str env generate request)) = 200
         \<and> exception_str http_str e \<noteq> []"
proof -
  from assms(2) have test: "is_api_error (exception_str http_str e)"
    by (simp add: is_api_error_def)
  have outcome: "chat_endpoint http_str env generate request =
           (Inr \<lparr>response = apology, status = ''error'',
                 error = Some (exception_str http_str e)\<rparr>, calls)"
    by (simp add: chat_endpoint_def assms(1) except_clause_def test)
  have sent: "http_status (fst (chat_endpoint http_str env generate request)) = 200"
    by (simp add: outcome)
  from assms(2) have nonempty: "exception_str http_str e \<noteq> []"
    by (auto simp: lower_def)
  from outcome sent nonempty show ?thesis by blast
qed

text \<open>The amended C2 at a provider that raises \<^verbatim>\<open>QUOTA exceeded\<close>.\<close>

theorem upstream_failure_absorbed_witness:
  "try_body configured (raising ''QUOTA exceeded'') (ask ''hi'') =
     (Inl (Exception ''QUOTA exceeded''),
      [(''gemini-1.5-pro'', full_prompt (ask ''hi''), generation_config)])
   \<and> sublist ''quota'' (lower (exception_str starlette_str (Exception ''QUOTA exceeded'')))
   \<and> chat_endpoint starlette_str configured (raising ''QUOTA exceeded'') (ask ''hi'') =
       (Inr \<lparr>response = apology, status = ''error'', error = Some ''QUOTA exceeded''\<rparr>,
        [(''gemini-1.5-pro'', full_prompt (ask ''hi''), generation_config)])
   \<and> http_status (fst (chat_endpoint starlette_str configured (raising ''QUOTA exceeded'')
         (ask ''hi''))) = 200"
proof -
  have raised: "try_body configured (raising ''QUOTA exceeded'') (ask ''hi'') =
     (Inl (Exception ''QUOTA exceeded''),
      [(''gemini-1.5-pro'', full_prompt (ask ''hi''), generation_config)])"
    by (rule try_body_raising)
  have contained:
    "sublist ''quota'' (lower (exception_str starlette_str (Exception ''QUOTA exceeded'')))"
    by code_simp
  from upstream_failure_absorbed [OF raised disjI2, OF contained] raised contained
  show ?thesis by simp
qed

text \<open>
  C3. For every exception raised in the body of the handler whose text contains neither
  \<^verbatim>\<open>api\<close> nor \<^verbatim>\<open>quota\<close>, compared case-insensitively, the handler raises
  an \<^verbatim>\<open>HTTPException\<close> with status 500 whose detail is \<^verbatim>\<open>Internal server error: \<close>
  followed by the text of the exception; the outcome is an exception, not a response.
\<close>

theorem internal_failure_propagated:
  assumes "try_body env generate request = (Inl e, calls)"
    and "\<not> sublist ''api'' (lower (exception_str http_str e))"
    and "\<not> sublist ''quota'' (lower (exception_str http_str e))"
  shows "chat_endpoint http_str env generate request =
           (Inl (HTTPException 500 (''Internal server error: '' @ exception_str http_str e)),
            calls)
         \<and> http_status (fst (chat_endpoint http_str env generate request)) = 500
         \<and> sublist (exception_str http_str e)
              (''Internal server error: '' @ exception_str http_str e)"
proof -
  from assms(2) have "\<not> sublist ''API'' (exception_str http_str e)"
    using case_sensitive_within_insensitive by blast
  with assms(3) have test: "\<not> is_api_error (exception_str http_str e)"
    by (simp add: is_api_error_def)
  have outcome: "chat_endpoint http_str env generate request =
           (Inl (HTTPException 500 (''Internal server error: '' @ exception_str http_str e)),
            calls)"
    by (simp add: chat_endpoint_def assms(1) except_clause_def test)
  have sent: "http_status (fst (chat_endpoint http_str env generate request)) = 500"
    by (simp add: outcome)
  have "sublist (exception_str http_str e)
              (''Internal server error: '' @ exception_str http_str e)"
    by (rule sublist_append_leftI)
  with outcome sent show ?thesis by blast
qed

text \<open>C3 at a provider that raises \<^verbatim>\<open>division by zero\<close>.\<close>

theorem internal_failure_propagated_witness:
  "try_body configured (raising ''division by zero'') (ask ''hi'') =
     (Inl (Exception ''division by zero''),
      [(''gemini-1.5-pro'', full_prompt (ask ''hi''), generation_config)])
   \<and> \<not> sublist ''api'' (lower (exception_str starlette_str (Exception ''division by zero'')))
   \<and> \<not> sublist ''quota'' (lower (exception_str starlette_str (Exception ''division by zero'')))
   \<and> chat_endpoint starlette_str configured (raising ''division by zero'') (ask ''hi'') =
       (Inl (HTTPException 500 ''Internal server error: division by zero''),
        [(''gemini-1.5-pro'', full_prompt (ask ''hi''), generation_config)])
   \<and> http_status (fst (chat_endpoint starlette_str configured (raising ''division by zero'')
         (ask ''hi''))) = 500"
proof -
  have raised: "try_body configured (raising ''division by zero'') (ask ''hi'') =
     (Inl (Exception ''division by zero''),
      [(''gemini-1.5-pro'', full_prompt (ask ''hi''), generation_config)])"
    by (rule try_body_raising)
  have no_api:
    "\<not> sublist ''api'' (lower (exception_str starlette_str (Exception ''division by zero'')))"
    by code_simp
  have no_quota:
    "\<not> sublist ''quota'' (lower (exception_str starlette_str (Exception ''division by zero'')))"
    by code_simp
  from internal_failure_propagated [OF raised no_api no_quota] raised no_api no_quota
  show ?thesis by simp
qed

subsection \<open>Prompt assembly\<close>

text \<open>
  C4. A history of more than 10 entries splits into older entries and the 10 most recent
  ones, and the parts of the prompt are the system part, one part for each of these 10
  entries in their order, and the part of the current turn: no older entry has a part.
  This holds for every split of the history whose second half has 10 entries. For a
  history of at most 10 entries every entry has its part, in order. The prompt is the
  parts joined by a blank line.
\<close>

theorem history_limited_to_last_10:
  "(10 < length (history request) \<longrightarrow>
      (\<exists>older recent. history request = older @ recent \<and> older \<noteq> [] \<and> length recent = 10
         \<and> conversation_parts request =
             (''System: '' @ effective_system_prompt request) # map history_part recent
               @ [''Human: '' @ current_message request]))
   \<and> (history request = older @ recent \<and> length recent = 10 \<longrightarrow>
      conversation_parts request =
        (''System: '' @ effective_system_prompt request) # map history_part recent
          @ [''Human: '' @ current_message request]
      \<and> full_prompt request = join ''\<newline>\<newline>''
          ((''System: '' @ effective_system_prompt request) # map history_part recent
             @ [''Human: '' @ current_message request]))
   \<and> (length (history request) \<le> 10 \<longrightarrow>
      conversation_parts request =
        (''System: '' @ effective_system_prompt request) # map history_part (history request)
          @ [''Human: '' @ current_message request]
      \<and> full_prompt request = join ''\<newline>\<newline>''
          ((''System: '' @ effective_system_prompt request) # map history_part (history request)
             @ [''Human: '' @ current_message request]))"
proof (intro conjI impI)
  assume long: "10 < length (history request)"
  let ?n = "length (history request) - 10"
  have "history request = take ?n (history request) @ drop ?n (history request)"
    by simp
  moreover from long have "take ?n (history request) \<noteq> []"
    by auto
  moreover from long have "length (drop ?n (history request)) = 10"
    by simp
  moreover have "conversation_parts request =
      (''System: '' @ effective_system_prompt request)
        # map history_part (drop ?n (history request))
        @ [''Human: '' @ current_message request]"
    by (simp add: conversation_parts_def last10_def)
  ultimately show "\<exists>older recent. history request = older @ recent \<and> older \<noteq> []
      \<and> length recent = 10
      \<and> conversation_parts request =
          (''System: '' @ effective_system_prompt request) # map history_part recent
            @ [''Human: '' @ current_message request]"
    by blast
qed (simp_all add: full_prompt_def conversation_parts_def last10_append last10_short)

text \<open>C4 at a history of eleven turns, and at a history of one turn.\<close>

theorem history_limited_to_last_10_witness:
  "10 < length (history ((ask ''hi'')\<lparr>history := eleven_turns\<rparr>))
   \<and> history ((ask ''hi'')\<lparr>history := eleven_turns\<rparr>) = [turn ''user'' ''q0''] @ tl eleven_turns
   \<and> length (tl eleven_turns) = 10
   \<and> conversation_parts ((ask ''hi'')\<lparr>history := eleven_turns\<rparr>) =
       [''System: '' @ default_system_prompt,
        ''Assistant: a0'', ''Human: q1'', ''Assistant: a1'', ''Human: q2'', ''Assistant: a2'',
        ''Human: q3'', ''Assistant: a3'', ''Human: q4'', ''Assistant: a4'', ''Human: q5'',
        ''Human: hi'']
   \<and> length (history ((ask ''hi'')\<lparr>history := [turn ''user'' ''q0'']\<rparr>)) \<le> 10
   \<and> conversation_parts ((ask ''hi'')\<lparr>history := [turn ''user'' ''q0'']\<rparr>) =
       [''System: '' @ default_system_prompt, ''Human: q0'', ''Human: hi'']"
proof -
  have split: "history ((ask ''hi'')\<lparr>history := eleven_turns\<rparr>)
                 = [turn ''user'' ''q0''] @ tl eleven_turns"
    by (simp add: eleven_turns_def)
  have ten: "length (tl eleven_turns) = 10"
    by (simp add: eleven_turns_def)
  have short: "length (history ((ask ''hi'')\<lparr>history := [turn ''user'' ''q0'']\<rparr>)) \<le> 10"
    by simp
  have sys: "effective_system_prompt ((ask ''hi'')\<lparr>history := h\<rparr>) = default_system_prompt" for h
    by (simp add: effective_system_prompt_def ask_def)
  have cur: "current_message ((ask ''hi'')\<lparr>history := h\<rparr>) = ''hi''" for h
    by (simp add: current_message_def ask_def)
  from history_limited_to_last_10
         [of "(ask ''hi'')\<lparr>history := eleven_turns\<rparr>" "[turn ''user'' ''q0'']" "tl eleven_turns"]
       split ten
  have long_parts: "conversation_parts ((ask ''hi'')\<lparr>history := eleven_turns\<rparr>) =
       [''System: '' @ default_system_prompt,
        ''Assistant: a0'', ''Human: q1'', ''Assistant: a1'', ''Human: q2'', ''Assistant: a2'',
        ''Human: q3'', ''Assistant: a3'', ''Human: q4'', ''Assistant: a4'', ''Human: q5'',
        ''Human: hi'']"
    by (simp add: sys cur eleven_turns_def turn_def history_part_def)
  from history_limited_to_last_10
         [of "(ask ''hi'')\<lparr>history := [turn ''user'' ''q0'']\<rparr>"] short
  have short_parts: "conversation_parts ((ask ''hi'')\<lparr>history := [turn ''user'' ''q0'']\<rparr>) =
       [''System: '' @ default_system_prompt, ''Human: q0'', ''Human: hi'']"
    by (simp add: sys cur turn_def history_part_def)
  have long: "10 < length (history ((ask ''hi'')\<lparr>history := eleven_turns\<rparr>))"
    by (simp add: eleven_turns_def)
  from long split ten long_parts short short_parts show ?thesis by blast
qed

text \<open>
  C5. With a non-empty search context, the last part of the prompt is \<^verbatim>\<open>Human: \<close>
  followed by the template of lines 93 to 97: it starts with \<^verbatim>\<open>Human\<close> and
  contains the message, the search context and the instruction to use the context when
  relevant. With a search context that is absent or empty, the last part is
  \<^verbatim>\<open>Human: \<close> followed by the message, and nothing else.
\<close>

theorem current_turn_segment:
  "(search_context request = Some context \<and> context \<noteq> [] \<longrightarrow>
      last (conversation_parts request) =
        ''Human: Question: '' @ message request @
        ''\<newline>            # Search Context:\<newline>            # '' @ context @
        ''\<newline>\<newline>            # Please answer the question using the provided search context when relevant.''
      \<and> prefix ''Human'' (last (conversation_parts request))
      \<and> sublist (message request) (last (conversation_parts request))
      \<and> sublist context (last (conversation_parts request))
      \<and> sublist ''Please answer the question using the provided search context when relevant.''
            (last (conversation_parts request)))
   \<and> (search_context request = None \<or> search_context request = Some [] \<longrightarrow>
      last (conversation_parts request) = ''Human: '' @ message request)"
proof (intro conjI impI)
  assume given: "search_context request = Some context \<and> context \<noteq> []"
  let ?final = "last (conversation_parts request)"
  let ?head = "''\<newline>            # Search Context:\<newline>            # ''"
  let ?instruction =
    "''Please answer the question using the provided search context when relevant.''"
  from given have final: "?final =
        ''Human: Question: '' @ message request @ ?head @ context @
        ''\<newline>\<newline>            # '' @ ?instruction"
    by (simp add: last_conversation_parts current_message_def)
  then show "?final =
        ''Human: Question: '' @ message request @
        ''\<newline>            # Search Context:\<newline>            # '' @ context @
        ''\<newline>\<newline>            # Please answer the question using the provided search context when relevant.''"
    by simp
  have "prefix ''Human'' (''Human'' @ '': Question: '' @ message request @ ?head @ context @
        ''\<newline>\<newline>            # '' @ ?instruction)"
    by (rule prefixI) (rule refl)
  with final show "prefix ''Human'' ?final"
    by simp
  have "sublist (message request) (''Human: Question: '' @ message request
          @ (?head @ context @ ''\<newline>\<newline>            # '' @ ?instruction))"
    by (rule sublist_appendI)
  with final show "sublist (message request) ?final"
    by simp
  have "sublist context ((''Human: Question: '' @ message request @ ?head) @ context
          @ (''\<newline>\<newline>            # '' @ ?instruction))"
    by (rule sublist_appendI)
  with final show "sublist context ?final"
    by simp
  have "sublist ?instruction ((''Human: Question: '' @ message request @ ?head @ context
          @ ''\<newline>\<newline>            # '') @ ?instruction)"
    by (rule sublist_append_leftI)
  with final show "sublist ?instruction ?final"
    by simp
next
  assume "search_context request = None \<or> search_context request = Some []"
  then show "last (conversation_parts request) = ''Human: '' @ message request"
    by (auto simp: last_conversation_parts current_message_def)
qed

text \<open>C5 at a request with the search context \<^verbatim>\<open>ctx\<close>, and at one without.\<close>

theorem current_turn_segment_witness:
  "search_context ((ask ''hi'')\<lparr>search_context := Some ''ctx''\<rparr>) = Some ''ctx'' \<and> ''ctx'' \<noteq> []
   \<and> last (conversation_parts ((ask ''hi'')\<lparr>search_context := Some ''ctx''\<rparr>)) =
        ''Human: Question: hi\<newline>            # Search Context:\<newline>            # ctx\<newline>\<newline>            # Please answer the question using the provided search context when relevant.''
   \<and> (search_context (ask ''hi'') = None \<or> search_context (ask ''hi'') = Some [])
   \<and> last (conversation_parts (ask ''hi'')) = ''Human: hi''"
proof -
  have given: "search_context ((ask ''hi'')\<lparr>search_context := Some ''ctx''\<rparr>) = Some ''ctx''
      \<and> ''ctx'' \<noteq> []"
    by simp
  have absent: "search_context (ask ''hi'') = None \<or> search_context (ask ''hi'') = Some []"
    by (simp add: ask_def)
  from current_turn_segment [of "(ask ''hi'')\<lparr>search_context := Some ''ctx''\<rparr>" "''ctx''"] given
  have with_context: "last (conversation_parts ((ask ''hi'')\<lparr>search_context := Some ''ctx''\<rparr>)) =
        ''Human: Question: hi\<newline>            # Search Context:\<newline>            # ctx\<newline>\<newline>            # Please answer the question using the provided search context when relevant.''"
    by (simp add: ask_def)
  from current_turn_segment [of "ask ''hi''"] absent
  have without: "last (conversation_parts (ask ''hi'')) = ''Human: hi''"
    by (simp add: ask_def)
  from given with_context absent without show ?thesis by blast
qed

text \<open>
  C6. A history turn whose role is \<^verbatim>\<open>user\<close> is rendered as \<^verbatim>\<open>Human: \<close>
  followed by its content, a turn of any other role as \<^verbatim>\<open>Assistant: \<close> followed by
  its content; the parts of the prompt between the first and the last are the turns of
  the history window rendered this way.
\<close>

theorem role_mapping_total:
  "(role msg = ''user'' \<longrightarrow> history_part msg = ''Human: '' @ content msg)
   \<and> (role msg \<noteq> ''user'' \<longrightarrow> history_part msg = ''Assistant: '' @ content msg)
   \<and> tl (butlast (conversation_parts request)) = map history_part (last10 (history request))"
  by (simp add: history_part_def conversation_parts_def butlast_append)

text \<open>C6 at the roles \<^verbatim>\<open>user\<close>, \<^verbatim>\<open>assistant\<close> and \<^verbatim>\<open>system\<close>.\<close>

theorem role_mapping_total_witness:
  "role (turn ''user'' ''q'') = ''user'' \<and> history_part (turn ''user'' ''q'') = ''Human: q''
   \<and> role (turn ''assistant'' ''a'') \<noteq> ''user''
   \<and> history_part (turn ''assistant'' ''a'') = ''Assistant: a''
   \<and> role (turn ''system'' ''s'') \<noteq> ''user''
   \<and> history_part (turn ''system'' ''s'') = ''Assistant: s''"
  using role_mapping_total [of "turn ''user'' ''q''"]
        role_mapping_total [of "turn ''assistant'' ''a''"]
        role_mapping_total [of "turn ''system'' ''s''"]
  by (simp add: turn_def)

text \<open>
  C7. With an empty history and a search context that is absent or empty, the prompt has
  exactly two parts, the system part and \<^verbatim>\<open>Human: \<close> followed by the message, and
  the prompt is the first, a blank line, and the second.
\<close>

theorem two_segments_without_history_and_context:
  assumes "history request = []"
    and "search_context request = None \<or> search_context request = Some []"
  shows "conversation_parts request =
           [''System: '' @ effective_system_prompt request, ''Human: '' @ message request]
         \<and> full_prompt request =
             (''System: '' @ effective_system_prompt request) @ ''\<newline>\<newline>''
               @ (''Human: '' @ message request)"
proof -
  from assms(2) have "current_message request = message request"
    by (auto simp: current_message_def)
  with assms(1) have parts: "conversation_parts request =
           [''System: '' @ effective_system_prompt request, ''Human: '' @ message request]"
    by (simp add: conversation_parts_def last10_def)
  then have "full_prompt request =
             (''System: '' @ effective_system_prompt request) @ ''\<newline>\<newline>''
               @ (''Human: '' @ message request)"
    by (simp add: full_prompt_def)
  with parts show ?thesis by blast
qed

text \<open>C7 at the request that only carries the message \<^verbatim>\<open>hi\<close>.\<close>

theorem two_segments_without_history_and_context_witness:
  "history (ask ''hi'') = []
   \<and> (search_context (ask ''hi'') = None \<or> search_context (ask ''hi'') = Some [])
   \<and> conversation_parts (ask ''hi'') = [''System: '' @ default_system_prompt, ''Human: hi'']
   \<and> full_prompt (ask ''hi'') = ''System: '' @ default_system_prompt @ ''\<newline>\<newline>Human: hi''"
proof -
  have empty: "history (ask ''hi'') = []"
    by (simp add: ask_def)
  have absent: "search_context (ask ''hi'') = None \<or> search_context (ask ''hi'') = Some []"
    by (simp add: ask_def)
  have sys: "effective_system_prompt (ask ''hi'') = default_system_prompt"
    by (simp add: effective_system_prompt_def ask_def)
  have msg: "message (ask ''hi'') = ''hi''"
    by (simp add: ask_def)
  from two_segments_without_history_and_context [OF empty absent] empty absent
  show ?thesis by (simp add: sys msg)
qed

subsection \<open>Success path\<close>

text \<open>
  C8. With a credential configured and a provider that answers, the provider is called
  exactly once, with the model name of the environment (\<^verbatim>\<open>gemini-1.5-pro\<close> when
  \<^verbatim>\<open>GEMINI_MODEL\<close> is unset), the assembled prompt, 1000 output tokens at most and
  the temperature 0.7; the handler returns the generated text unchanged with status
  \<^verbatim>\<open>success\<close>, sent with HTTP 200.
\<close>

theorem success_path:
  assumes "gemini_api_key env = Some key" and "key \<noteq> []"
    and "generate (model_name env) (full_prompt request) generation_config = Inr generated_text"
  shows "chat_endpoint http_str env generate request =
           (Inr \<lparr>response = generated_text, status = ''success'', error = None\<rparr>,
            [(model_name env, full_prompt request,
              \<lparr>max_output_tokens = 1000, temperature = 7 / 10\<rparr>)])
         \<and> (gemini_model env = None \<longrightarrow> model_name env = ''gemini-1.5-pro'')
         \<and> (gemini_model env = Some name \<longrightarrow> model_name env = name)
         \<and> http_status (fst (chat_endpoint http_str env generate request)) = 200"
proof -
  from assms(1,2) have credential: "truthy (gemini_api_key env)"
    by simp
  have body: "try_body env generate request =
      (Inr \<lparr>response = generated_text, status = ''success'', error = None\<rparr>,
       [(model_name env, full_prompt request, generation_config)])"
    by (simp add: try_body_def credential assms(3))
  have outcome: "chat_endpoint http_str env generate request =
           (Inr \<lparr>response = generated_text, status = ''success'', error = None\<rparr>,
            [(model_name env, full_prompt request,
              \<lparr>max_output_tokens = 1000, temperature = 7 / 10\<rparr>)])"
    by (simp add: chat_endpoint_def body generation_config_def)
  have sent: "http_status (fst (chat_endpoint http_str env generate request)) = 200"
    by (simp add: outcome)
  have unset: "gemini_model env = None \<longrightarrow> model_name env = ''gemini-1.5-pro''"
    by (simp add: model_name_def)
  have set: "gemini_model env = Some name \<longrightarrow> model_name env = name"
    by (simp add: model_name_def)
  from outcome unset set sent show ?thesis by blast
qed

text \<open>C8 at a provider that answers \<^verbatim>\<open>hello\<close>, with and without a configured model.\<close>

theorem success_path_witness:
  "gemini_api_key configured = Some ''key'' \<and> ''key'' \<noteq> []
   \<and> answering ''hello'' (model_name configured) (full_prompt (ask ''hi'')) generation_config
       = Inr ''hello''
   \<and> gemini_model configured = None
   \<and> chat_endpoint starlette_str configured (answering ''hello'') (ask ''hi'') =
       (Inr \<lparr>response = ''hello'', status = ''success'', error = None\<rparr>,
        [(''gemini-1.5-pro'', full_prompt (ask ''hi''),
          \<lparr>max_output_tokens = 1000, temperature = 7 / 10\<rparr>)])
   \<and> gemini_model (configured\<lparr>gemini_model := Some ''gemini-pro''\<rparr>) = Some ''gemini-pro''
   \<and> model_name (configured\<lparr>gemini_model := Some ''gemini-pro''\<rparr>) = ''gemini-pro''"
proof -
  have key: "gemini_api_key configured = Some ''key''"
    by (simp add: configured_def)
  have nonempty: "''key'' \<noteq> []"
    by simp
  have answer: "answering ''hello'' (model_name configured) (full_prompt (ask ''hi''))
      generation_config = Inr ''hello''"
    by (simp add: answering_def)
  have unset: "gemini_model configured = None"
    by (simp add: configured_def)
  let ?other = "configured\<lparr>gemini_model := Some ''gemini-pro''\<rparr>"
  have key': "gemini_api_key ?other = Some ''key''"
    by (simp add: configured_def)
  have answer': "answering ''hello'' (model_name ?other) (full_prompt (ask ''hi''))
      generation_config = Inr ''hello''"
    by (simp add: answering_def)
  have set: "gemini_model ?other = Some ''gemini-pro''"
    by simp
  from success_path [where env = configured and key = "''key''"
         and generate = "answering ''hello''" and request = "ask ''hi''"
         and generated_text = "''hello''" and http_str = starlette_str]
       key nonempty answer unset
  have first: "chat_endpoint starlette_str configured (answering ''hello'') (ask ''hi'') =
       (Inr \<lparr>response = ''hello'', status = ''success'', error = None\<rparr>,
        [(''gemini-1.5-pro'', full_prompt (ask ''hi''),
          \<lparr>max_output_tokens = 1000, temperature = 7 / 10\<rparr>)])"
    by simp
  from success_path [where env = ?other and key = "''key''"
         and generate = "answering ''hello''" and request = "ask ''hi''"
         and generated_text = "''hello''" and name = "''gemini-pro''"]
       key' nonempty answer' set
  have second: "model_name ?other = ''gemini-pro''"
    by simp
  from key nonempty answer unset first set second show ?thesis by blast
qed

subsection \<open>System prompt\<close>

text \<open>
  C9. A system prompt that is the empty string, like an absent one, is replaced by the
  default system prompt; for no request is the system part of the prompt
  \<^verbatim>\<open>System: \<close> followed by nothing.
\<close>

theorem empty_system_prompt_falls_back:
  "(system_prompt request = Some [] \<or> system_prompt request = None \<longrightarrow>
      effective_system_prompt request = default_system_prompt
      \<and> hd (conversation_parts request) = ''System: '' @ default_system_prompt)
   \<and> hd (conversation_parts request) \<noteq> ''System: ''"
proof (intro conjI impI)
  assume "system_prompt request = Some [] \<or> system_prompt request = None"
  then have fallback: "effective_system_prompt request = default_system_prompt"
    by (auto simp: effective_system_prompt_def)
  then show "effective_system_prompt request = default_system_prompt" .
  from fallback show "hd (conversation_parts request) = ''System: '' @ default_system_prompt"
    by (simp add: hd_conversation_parts)
next
  show "hd (conversation_parts request) \<noteq> ''System: ''"
    using effective_system_prompt_nonempty [of request]
    by (simp add: hd_conversation_parts)
qed

text \<open>C9 at a request whose system prompt is the empty string.\<close>

theorem empty_system_prompt_falls_back_witness:
  "(system_prompt ((ask ''hi'')\<lparr>system_prompt := Some []\<rparr>) = Some []
      \<or> system_prompt ((ask ''hi'')\<lparr>system_prompt := Some []\<rparr>) = None)
   \<and> effective_system_prompt ((ask ''hi'')\<lparr>system_prompt := Some []\<rparr>) = default_system_prompt
   \<and> hd (conversation_parts ((ask ''hi'')\<lparr>system_prompt := Some []\<rparr>))
       = ''System: '' @ default_system_prompt"
proof -
  have given: "system_prompt ((ask ''hi'')\<lparr>system_prompt := Some []\<rparr>) = Some []
      \<or> system_prompt ((ask ''hi'')\<lparr>system_prompt := Some []\<rparr>) = None"
    by simp
  from empty_system_prompt_falls_back [of "(ask ''hi'')\<lparr>system_prompt := Some []\<rparr>"] given
  show ?thesis by blast
qed

subsection \<open>What the prompt depends on\<close>

text \<open>
  C10. Two requests with the same message, search context and system prompt, whose
  histories have the same roles and contents in the same order, have the same prompt:
  the user id and the timestamps of the history have no influence.
\<close>

theorem prompt_independent_of_user_id_and_timestamps:
  assumes "message r1 = message r2"
    and "search_context r1 = search_context r2"
    and "system_prompt r1 = system_prompt r2"
    and "map (\<lambda>msg. (role msg, content msg)) (history r1)
         = map (\<lambda>msg. (role msg, content msg)) (history r2)"
  shows "full_prompt r1 = full_prompt r2"
proof -
  from assms(4) have "map history_part (history r1) = map history_part (history r2)"
    by (rule history_parts_role_content)
  then have "last10 (map history_part (history r1)) = last10 (map history_part (history r2))"
    by simp
  then have "map history_part (last10 (history r1)) = map history_part (last10 (history r2))"
    by (simp only: last10_map)
  moreover from assms(3) have "effective_system_prompt r1 = effective_system_prompt r2"
    by (simp add: effective_system_prompt_def)
  moreover from assms(1,2) have "current_message r1 = current_message r2"
    by (simp add: current_message_def)
  ultimately show ?thesis
    by (simp add: full_prompt_def conversation_parts_def)
qed

text \<open>C10 at two requests that differ in the user id and in both timestamps.\<close>

theorem prompt_independent_of_user_id_and_timestamps_witness:
  "full_prompt \<lparr>message = ''hi'', history = [turn ''user'' ''q'', turn ''assistant'' ''a''],
                search_context = Some ''ctx'', user_id = Some ''alice'', system_prompt = None\<rparr>
   = full_prompt \<lparr>message = ''hi'',
                  history = [dated ''2024-01-01'' (turn ''user'' ''q''),
                             dated ''2024-01-02'' (turn ''assistant'' ''a'')],
                  search_context = Some ''ctx'', user_id = Some ''bob'', system_prompt = None\<rparr>"
  by (rule prompt_independent_of_user_id_and_timestamps) (simp_all add: dated_def turn_def)

end
